theory Spec2Isabelle
  imports Main
begin

section \<open>Strings\<close>

text \<open>
  Python strings are modelled as HOL strings, a character standing for a code point below
  256; the string methods the converter calls are written out for these code points.
\<close>

definition lower_char :: "char \<Rightarrow> char" where
  "lower_char c =
     (let n = (of_char c :: nat)
      in if (65 \<le> n \<and> n \<le> 90) \<or> (192 \<le> n \<and> n \<le> 222 \<and> n \<noteq> 215) then char_of (n + 32) else c)"

definition lower :: "string \<Rightarrow> string" where
  "lower s = map lower_char s"

definition is_space :: "char \<Rightarrow> bool" where
  "is_space c = ((of_char c :: nat) \<in> {9, 10, 11, 12, 13, 28, 29, 30, 31, 32, 133, 160})"

definition strip :: "string \<Rightarrow> string" where
  "strip s = rev (dropWhile is_space (rev (dropWhile is_space s)))"

text \<open>\<open>s.rfind(c)\<close>: the index of the last occurrence, or \<open>-1\<close>.\<close>

definition rfind :: "char \<Rightarrow> string \<Rightarrow> int" where
  "rfind c s =
     (if c \<in> set s
      then int (length s) - 1 - int (length (takeWhile (\<lambda>x. x \<noteq> c) (rev s)))
      else - 1)"

text \<open>\<open>s.split(c)\<close>: the fields between the separators, empty fields kept.\<close>

fun split_sep :: "char \<Rightarrow> string \<Rightarrow> string list" where
  "split_sep c [] = [[]]"
| "split_sep c (x # xs) =
     (if x = c then [] # split_sep c xs
      else (case split_sep c xs of [] \<Rightarrow> [[x]] | w # ws \<Rightarrow> (x # w) # ws))"

fun join_sep :: "string \<Rightarrow> string list \<Rightarrow> string" where
  "join_sep sep [] = []"
| "join_sep sep [x] = x"
| "join_sep sep (x # y # ys) = x @ sep @ join_sep sep (y # ys)"

text \<open>\<open>str(n)\<close> for a length: the decimal digits.\<close>

definition digit_char :: "nat \<Rightarrow> char" where
  "digit_char d = char_of (48 + d)"

fun str_nat :: "nat \<Rightarrow> string" where
  "str_nat n = (if n < 10 then [digit_char n] else str_nat (n div 10) @ [digit_char (n mod 10)])"

declare str_nat.simps [simp del]

section \<open>Exceptions\<close>

text \<open>
  An exception is its class and its text (what \<open>str(exc)\<close> gives). Each class stands
  for itself and its subclasses that are not listed: \<open>OSError\<close> is every \<open>OSError\<close>
  other than \<open>FileNotFoundError\<close> (\<open>PermissionError\<close>, \<open>FileExistsError\<close>,
  \<open>NotADirectoryError\<close>, \<open>IsADirectoryError\<close>), and \<open>OtherError\<close> is any class
  outside the ones named.
\<close>

datatype exn_class =
  FileNotFoundError | RuntimeError | ValueError | KeyError | AttributeError | OSError | OtherError

datatype exn = Exn exn_class string

fun exn_cls :: "exn \<Rightarrow> exn_class" where
  "exn_cls (Exn c m) = c"

fun exn_str :: "exn \<Rightarrow> string" where
  "exn_str (Exn c m) = m"

text \<open>\<open>repr\<close> of a string without quotes or escapes in it.\<close>

definition repr :: "string \<Rightarrow> string" where
  "repr s = [CHR 0x27] @ s @ [CHR 0x27]"

section \<open>Paths (\<open>pathlib\<close>, POSIX flavour)\<close>

text \<open>
  A path is its root (\<open>''''\<close>, \<open>''/''\<close> or \<open>''//''\<close>) and the list of its
  components. \<open>Path\<close> parses a string as \<open>pathlib\<close> does: the root is split off,
  empty components and \<open>.\<close> are dropped, \<open>..\<close> is kept.
\<close>

record path =
  anchor :: string
  tail :: "string list"

definition splitroot :: "string \<Rightarrow> string \<times> string" where
  "splitroot p =
     (if take 1 p \<noteq> ''/'' then ('''', p)
      else if take 1 (drop 1 p) \<noteq> ''/'' \<or> take 1 (drop 2 p) = ''/'' then (''/'', drop 1 p)
      else (''//'', drop 2 p))"

definition Path :: "string \<Rightarrow> path" where
  "Path s =
     (case splitroot s of (rt, rel) \<Rightarrow>
        \<lparr>anchor = rt, tail = filter (\<lambda>x. x \<noteq> '''' \<and> x \<noteq> ''.'') (split_sep CHR ''/'' rel)\<rparr>)"

text \<open>\<open>p / q\<close>: an anchored right operand replaces the left one.\<close>

definition joinpath :: "path \<Rightarrow> path \<Rightarrow> path" where
  "joinpath p q = (if anchor q \<noteq> '''' then q else \<lparr>anchor = anchor p, tail = tail p @ tail q\<rparr>)"

definition join_str :: "path \<Rightarrow> string \<Rightarrow> path" where
  "join_str p s = joinpath p (Path s)"

definition path_str :: "path \<Rightarrow> string" where
  "path_str p = (let s = anchor p @ join_sep ''/'' (tail p) in if s = '''' then ''.'' else s)"

definition path_name :: "path \<Rightarrow> string" where
  "path_name p = (if tail p = [] then '''' else last (tail p))"

definition path_suffix :: "path \<Rightarrow> string" where
  "path_suffix p =
     (let nm = path_name p; i = rfind CHR ''.'' nm
      in if 0 < i \<and> i < int (length nm) - 1 then drop (nat i) nm else '''')"

definition path_stem :: "path \<Rightarrow> string" where
  "path_stem p =
     (let nm = path_name p; i = rfind CHR ''.'' nm
      in if 0 < i \<and> i < int (length nm) - 1 then take (nat i) nm else nm)"

definition path_parent :: "path \<Rightarrow> path" where
  "path_parent p = (if tail p = [] then p else p\<lparr>tail := butlast (tail p)\<rparr>)"

text \<open>
  \<open>p.relative_to(other)\<close> raises \<open>ValueError\<close> unless \<open>other\<close> is \<open>p\<close> or one of its
  parents: same root, and the components of \<open>other\<close> a prefix of those of \<open>p\<close>.
\<close>

definition is_relative_to :: "path \<Rightarrow> path \<Rightarrow> bool" where
  "is_relative_to p other =
     (anchor p = anchor other \<and> take (length (tail other)) (tail p) = tail other)"

definition relative_to :: "path \<Rightarrow> path \<Rightarrow> exn + path" where
  "relative_to p other =
     (if is_relative_to p other
      then Inr \<lparr>anchor = '''', tail = drop (length (tail other)) (tail p)\<rparr>
      else Inl (Exn ValueError
                 (repr (path_str p) @ '' is not in the subpath of '' @ repr (path_str other))))"

section \<open>The file system\<close>

text \<open>
  The file system is a tree of directories and regular files without symbolic links. A path
  is resolved as the kernel resolves it, component by component, from the root or (a relative
  path) from the working directory: every component but the last must lead through an
  existing directory, and \<open>..\<close> leads to the parent of the directory reached so far.
\<close>

datatype node = File | Dir "(string \<times> node) list"

datatype errno = ENOENT | EEXIST | ENOTDIR | EISDIR

definition os_error :: "errno \<Rightarrow> path \<Rightarrow> exn" where
  "os_error er p =
     (case er of
        ENOENT \<Rightarrow> Exn FileNotFoundError (''[Errno 2] No such file or directory: '' @ repr (path_str p))
      | EEXIST \<Rightarrow> Exn OSError (''[Errno 17] File exists: '' @ repr (path_str p))
      | ENOTDIR \<Rightarrow> Exn OSError (''[Errno 20] Not a directory: '' @ repr (path_str p))
      | EISDIR \<Rightarrow> Exn OSError (''[Errno 21] Is a directory: '' @ repr (path_str p)))"

fun replace_entry :: "(string \<times> node) list \<Rightarrow> string \<Rightarrow> node \<Rightarrow> (string \<times> node) list" where
  "replace_entry [] c n = [(c, n)]"
| "replace_entry ((k, v) # es) c n = (if k = c then (k, n) # es else (k, v) # replace_entry es c n)"

text \<open>The node at a place of the tree, the place given by its components from the root.\<close>

fun lookup :: "node \<Rightarrow> string list \<Rightarrow> node option" where
  "lookup n [] = Some n"
| "lookup File (c # cs) = None"
| "lookup (Dir es) (c # cs) = (case map_of es c of None \<Rightarrow> None | Some n \<Rightarrow> lookup n cs)"

text \<open>The place that the components of a path lead to from the place \<open>cur\<close>. The place
  reached before each component must be an existing directory; the place of the last
  component need not exist.\<close>

fun resolve :: "node \<Rightarrow> string list \<Rightarrow> string list \<Rightarrow> errno + string list" where
  "resolve t cur [] = Inr cur"
| "resolve t cur (c # cs) =
     (case lookup t cur of
        None \<Rightarrow> Inl ENOENT
      | Some File \<Rightarrow> Inl ENOTDIR
      | Some (Dir es) \<Rightarrow> resolve t (if c = ''..'' then butlast cur else cur @ [c]) cs)"

definition fs_key :: "node \<Rightarrow> string list \<Rightarrow> path \<Rightarrow> errno + string list" where
  "fs_key t wd p = resolve t (if anchor p = '''' then wd else []) (tail p)"

definition stat :: "node \<Rightarrow> string list \<Rightarrow> path \<Rightarrow> node option" where
  "stat t wd p = (case fs_key t wd p of Inl er \<Rightarrow> None | Inr k \<Rightarrow> lookup t k)"

definition stat_is_dir :: "node \<Rightarrow> string list \<Rightarrow> path \<Rightarrow> bool" where
  "stat_is_dir t wd p = (case stat t wd p of Some (Dir es) \<Rightarrow> True | _ \<Rightarrow> False)"

text \<open>A new directory at a place of the tree: the place must not exist and its parent must
  be a directory.\<close>

fun make_dir :: "node \<Rightarrow> string list \<Rightarrow> errno + node" where
  "make_dir n [] = Inl EEXIST"
| "make_dir File (c # cs) = Inl ENOTDIR"
| "make_dir (Dir es) (c # cs) =
     (case map_of es c of
        None \<Rightarrow> (if cs = [] then Inr (Dir (replace_entry es c (Dir []))) else Inl ENOENT)
      | Some n \<Rightarrow>
          (case make_dir n cs of
             Inl er \<Rightarrow> Inl er
           | Inr n' \<Rightarrow> Inr (Dir (replace_entry es c n'))))"

text \<open>A regular file at a place of the tree: it is created in an existing directory, or
  kept; a directory at the place is an error.\<close>

fun write_file :: "node \<Rightarrow> string list \<Rightarrow> errno + node" where
  "write_file File [] = Inr File"
| "write_file (Dir es) [] = Inl EISDIR"
| "write_file File (c # cs) = Inl ENOTDIR"
| "write_file (Dir es) (c # cs) =
     (case map_of es c of
        None \<Rightarrow> (if cs = [] then Inr (Dir (replace_entry es c File)) else Inl ENOENT)
      | Some n \<Rightarrow>
          (case write_file n cs of
             Inl er \<Rightarrow> Inl er
           | Inr n' \<Rightarrow> Inr (Dir (replace_entry es c n'))))"

text \<open>\<open>os.mkdir(p)\<close> and opening \<open>p\<close> for writing.\<close>

definition os_mkdir :: "node \<Rightarrow> string list \<Rightarrow> path \<Rightarrow> errno + node" where
  "os_mkdir t wd p = (case fs_key t wd p of Inl er \<Rightarrow> Inl er | Inr k \<Rightarrow> make_dir t k)"

definition open_w :: "node \<Rightarrow> string list \<Rightarrow> path \<Rightarrow> errno + node" where
  "open_w t wd p = (case fs_key t wd p of Inl er \<Rightarrow> Inl er | Inr k \<Rightarrow> write_file t k)"

text \<open>
  \<open>Path.mkdir\<close> of \<open>pathlib\<close>, with \<open>exist_ok=True\<close>. It calls \<open>os.mkdir\<close>; on
  \<open>FileNotFoundError\<close> with \<open>parents=True\<close> it makes the parent in the same way and then
  the directory itself with \<open>parents=False\<close>; any other \<open>OSError\<close> is raised again unless
  the path is a directory. The result is the error, if any, with the path of the failing
  call, and the tree with what has been created.
\<close>

definition mkdir_exist_ok :: "node \<Rightarrow> string list \<Rightarrow> path \<Rightarrow> (errno \<times> path) option \<times> node" where
  "mkdir_exist_ok t wd p =
     (case os_mkdir t wd p of
        Inr t1 \<Rightarrow> (None, t1)
      | Inl er \<Rightarrow>
          if er = ENOENT then (Some (er, p), t)
          else if stat_is_dir t wd p then (None, t) else (Some (er, p), t))"

function mkdir_p :: "node \<Rightarrow> string list \<Rightarrow> path \<Rightarrow> (errno \<times> path) option \<times> node" where
  "mkdir_p t wd p =
     (case os_mkdir t wd p of
        Inr t1 \<Rightarrow> (None, t1)
      | Inl er \<Rightarrow>
          if er = ENOENT
          then (if path_parent p = p then (Some (er, p), t)
                else (case mkdir_p t wd (path_parent p) of
                        (Some err, t1) \<Rightarrow> (Some err, t1)
                      | (None, t1) \<Rightarrow> mkdir_exist_ok t1 wd p))
          else if stat_is_dir t wd p then (None, t) else (Some (er, p), t))"
  by pat_completeness auto
termination
  by (relation "measure (\<lambda>(t, wd, p). length (tail p))") (auto simp: path_parent_def split: if_splits)

declare mkdir_p.simps [simp del]

text \<open>The recursive walk behind \<open>rglob("*")\<close>: every entry below a directory, regular
  files and directories alike, as its components relative to that directory.\<close>

fun walk :: "node \<Rightarrow> string list list" where
  "walk File = []"
| "walk (Dir es) = concat (map (\<lambda>(nm, n). [nm] # map ((#) nm) (walk n)) es)"

section \<open>The environment and the state of a run\<close>

type_synonym document = string

text \<open>An OCR reader instance: \<open>Reader gpu k\<close> is the \<open>k\<close>-th instance constructed.\<close>

datatype reader = Reader bool nat

text \<open>
  The environment holds what the program takes from outside: whether \<open>easyocr\<close> could be
  imported, the working directory, the directory of the script, the conversion engine, the
  OCR engine (the number of lines it detects), the encoders of the document model (whether
  they fail), the clock and the elapsed time as printed.
\<close>

record env =
  GPU_AVAILABLE :: bool
  cwd :: "string list"
  script_dir :: path
  convert :: "string \<Rightarrow> exn + document"
  readtext :: "reader \<Rightarrow> string \<Rightarrow> exn + nat"
  export :: "string \<Rightarrow> document \<Rightarrow> exn option"
  now_iso :: "nat \<Rightarrow> string"
  elapsed :: string

text \<open>
  The state holds what the program changes: the file system, the lines logged, the reader
  instances constructed, the \<open>readtext\<close> calls made, the pools started, the rows of the
  summary written in this run and the number of clock readings.
\<close>

record state =
  fs :: node
  log_lines :: "string list"
  readers :: "reader list"
  ocr_calls :: "(reader \<times> string) list"
  pool_starts :: nat
  csv :: "string list list option"
  ticks :: nat

definition path_exists :: "env \<Rightarrow> state \<Rightarrow> path \<Rightarrow> bool" where
  "path_exists e st p = (stat (fs st) (cwd e) p \<noteq> None)"

definition is_file :: "env \<Rightarrow> state \<Rightarrow> path \<Rightarrow> bool" where
  "is_file e st p = (stat (fs st) (cwd e) p = Some File)"

definition is_dir :: "env \<Rightarrow> state \<Rightarrow> path \<Rightarrow> bool" where
  "is_dir e st p = stat_is_dir (fs st) (cwd e) p"

definition rglob :: "env \<Rightarrow> state \<Rightarrow> path \<Rightarrow> path list" where
  "rglob e st p =
     (case stat (fs st) (cwd e) p of
        Some (Dir es) \<Rightarrow> map (\<lambda>rel. p\<lparr>tail := tail p @ rel\<rparr>) (walk (Dir es))
      | _ \<Rightarrow> [])"

section \<open>The module \<open>doc_ling\<close>\<close>

text \<open>The module-level reader handles. Nothing in the module assigns them.\<close>

definition OCR_READER_GPU :: "reader option" where
  "OCR_READER_GPU = None"

definition OCR_READER_CPU :: "reader option" where
  "OCR_READER_CPU = None"

definition LOG_FILE :: path where
  "LOG_FILE = Path ''conversion.log''"

text \<open>\<open>log\<close> appends the message to the log file, which it creates when missing, and
  prints it. The log file is taken to be writable.\<close>

definition log :: "env \<Rightarrow> string \<Rightarrow> state \<Rightarrow> state" where
  "log e message st =
     st\<lparr>fs := (case open_w (fs st) (cwd e) LOG_FILE of Inl er \<Rightarrow> fs st | Inr t \<Rightarrow> t),
        log_lines := log_lines st @ [message]\<rparr>"

text \<open>The five save helpers: the document model encodes itself, the file is written,
  the saved path is logged.\<close>

definition save_as :: "string \<Rightarrow> string \<Rightarrow> env \<Rightarrow> document \<Rightarrow> path \<Rightarrow> state \<Rightarrow> (exn + unit) \<times> state" where
  "save_as encoder label e doc file_path st =
     (case export e encoder doc of
        Some exc \<Rightarrow> (Inl exc, st)
      | None \<Rightarrow>
          (case open_w (fs st) (cwd e) file_path of
             Inl er \<Rightarrow> (Inl (os_error er file_path), st)
           | Inr t \<Rightarrow> (Inr (), log e (''Saved '' @ label @ '' to '' @ path_str file_path) (st\<lparr>fs := t\<rparr>))))"

definition save_html :: "env \<Rightarrow> document \<Rightarrow> path \<Rightarrow> state \<Rightarrow> (exn + unit) \<times> state" where
  "save_html = save_as ''save_as_html'' ''HTML''"

definition save_json :: "env \<Rightarrow> document \<Rightarrow> path \<Rightarrow> state \<Rightarrow> (exn + unit) \<times> state" where
  "save_json = save_as ''save_as_json'' ''JSON''"

definition save_markdown :: "env \<Rightarrow> document \<Rightarrow> path \<Rightarrow> state \<Rightarrow> (exn + unit) \<times> state" where
  "save_markdown = save_as ''save_as_markdown'' ''Markdown''"

definition save_text :: "env \<Rightarrow> document \<Rightarrow> path \<Rightarrow> state \<Rightarrow> (exn + unit) \<times> state" where
  "save_text = save_as ''export_to_text'' ''Text''"

definition save_doctags :: "env \<Rightarrow> document \<Rightarrow> path \<Rightarrow> state \<Rightarrow> (exn + unit) \<times> state" where
  "save_doctags = save_as ''export_to_doctags'' ''Doctags''"

definition handlers :: "string \<rightharpoonup> (env \<Rightarrow> document \<Rightarrow> path \<Rightarrow> state \<Rightarrow> (exn + unit) \<times> state)" where
  "handlers =
     map_of [(''html'', save_html), (''json'', save_json), (''md'', save_markdown),
             (''txt'', save_text), (''doctags'', save_doctags)]"

subsection \<open>\<open>process_file\<close>\<close>

text \<open>Lines 98 to 100: the readers are constructed into the parameters of the call.\<close>

definition new_reader :: "bool \<Rightarrow> state \<Rightarrow> reader \<times> state" where
  "new_reader gpu st =
     (let r = Reader gpu (length (readers st)) in (r, st\<lparr>readers := readers st @ [r]\<rparr>))"

definition init_readers :: "env \<Rightarrow> bool \<Rightarrow> reader option \<Rightarrow> reader option \<Rightarrow> state \<Rightarrow> (reader option \<times> reader option) \<times> state" where
  "init_readers e use_gpu ocr_reader_gpu ocr_reader_cpu st =
     (if use_gpu \<and> GPU_AVAILABLE e \<and> ocr_reader_gpu = None
      then (case new_reader True st of (g, st1) \<Rightarrow>
             (case new_reader False st1 of (c, st2) \<Rightarrow> ((Some g, Some c), st2)))
      else ((ocr_reader_gpu, ocr_reader_cpu), st))"

text \<open>A \<open>readtext\<close> call on a handle; on \<open>None\<close> the attribute lookup fails.\<close>

definition call_readtext :: "env \<Rightarrow> reader option \<Rightarrow> path \<Rightarrow> state \<Rightarrow> (exn + nat) \<times> state" where
  "call_readtext e handle file_path st =
     (case handle of
        None \<Rightarrow> (Inl (Exn AttributeError (repr ''NoneType'' @ '' object has no attribute '' @ repr ''readtext'')), st)
      | Some r \<Rightarrow>
          (readtext e r (path_str file_path),
           st\<lparr>ocr_calls := ocr_calls st @ [(r, path_str file_path)]\<rparr>))"

text \<open>Lines 117 to 122: the attempt on the accelerated reader.\<close>

definition gpu_attempt :: "env \<Rightarrow> path \<Rightarrow> state \<Rightarrow> (exn + unit) \<times> state" where
  "gpu_attempt e file_path st =
     (if GPU_AVAILABLE e
      then (case call_readtext e OCR_READER_GPU file_path st of
              (Inl exc, st1) \<Rightarrow> (Inl exc, st1)
            | (Inr n, st1) \<Rightarrow>
                (Inr (), log e (''GPU OCR result for '' @ path_name file_path @ '': '' @ str_nat n @ '' lines detected'') st1))
      else (Inl (Exn RuntimeError ''GPU not available''), st))"

text \<open>Lines 116 to 130: the inner \<open>try\<close> with its handler for \<open>RuntimeError\<close> and
  \<open>ValueError\<close>; what the handler raises leaves the block.\<close>

definition ocr_block :: "env \<Rightarrow> path \<Rightarrow> reader option \<Rightarrow> state \<Rightarrow> (exn + unit) \<times> state" where
  "ocr_block e file_path ocr_reader_cpu st =
     (case gpu_attempt e file_path st of
        (Inr u, st1) \<Rightarrow> (Inr (), st1)
      | (Inl exc, st1) \<Rightarrow>
          if exn_cls exc \<in> {RuntimeError, ValueError}
          then (if OCR_READER_CPU \<noteq> None
                then (if ocr_reader_cpu \<noteq> None
                      then (case call_readtext e ocr_reader_cpu file_path
                                   (log e (''GPU OCR failed for '' @ path_name file_path @ '', falling back to CPU OCR.'') st1) of
                              (Inl exc2, st2) \<Rightarrow> (Inl exc2, st2)
                            | (Inr n, st2) \<Rightarrow>
                                (Inr (), log e (''CPU OCR result for '' @ path_name file_path @ '': '' @ str_nat n @ '' lines detected'') st2))
                      else (Inr (), st1))
                else (Inr (), st1))
          else (Inl exc, st1))"

text \<open>Lines 132 to 136: the output path of the task.\<close>

definition target_dir_of :: "path \<Rightarrow> string \<Rightarrow> path \<Rightarrow> path \<Rightarrow> exn + path" where
  "target_dir_of output_root format_key input_base file_path =
     (let input_name = path_name input_base in
      case relative_to (path_parent file_path) input_base of
        Inl exc \<Rightarrow> Inl exc
      | Inr relative_path \<Rightarrow>
          Inr (joinpath (join_str (join_str output_root format_key) input_name) relative_path))"

definition target_file_of :: "path \<Rightarrow> path \<Rightarrow> string \<Rightarrow> path" where
  "target_file_of target_dir file_path ext = join_str target_dir (path_stem file_path @ ''.'' @ ext)"

definition mkdir_parents :: "env \<Rightarrow> path \<Rightarrow> state \<Rightarrow> (exn + unit) \<times> state" where
  "mkdir_parents e p st =
     (case mkdir_p (fs st) (cwd e) p of
        (Some (er, q), t) \<Rightarrow> (Inl (os_error er q), st\<lparr>fs := t\<rparr>)
      | (None, t) \<Rightarrow> (Inr (), st\<lparr>fs := t\<rparr>))"

text \<open>Lines 113 to 137: the body of the outer \<open>try\<close>.\<close>

definition task_body :: "env \<Rightarrow> path \<Rightarrow> string \<Rightarrow> path \<Rightarrow> string \<Rightarrow> path \<Rightarrow> bool \<Rightarrow> reader option \<Rightarrow>
    (env \<Rightarrow> document \<Rightarrow> path \<Rightarrow> state \<Rightarrow> (exn + unit) \<times> state) \<Rightarrow> state \<Rightarrow> (exn + unit) \<times> state" where
  "task_body e file_path ext output_root format_key input_base use_gpu ocr_reader_cpu save_func st =
     (case convert e (path_str file_path) of
        Inl exc \<Rightarrow> (Inl exc, st)
      | Inr res \<Rightarrow>
          (case (if use_gpu \<and> lower (path_suffix file_path) \<in> set [''.jpg'', ''.jpeg'', ''.png'']
                 then ocr_block e file_path ocr_reader_cpu st else (Inr (), st)) of
             (Inl exc, st1) \<Rightarrow> (Inl exc, st1)
           | (Inr u, st1) \<Rightarrow>
               (case target_dir_of output_root format_key input_base file_path of
                  Inl exc \<Rightarrow> (Inl exc, st1)
                | Inr target_dir \<Rightarrow>
                    (case mkdir_parents e target_dir st1 of
                       (Inl exc, st2) \<Rightarrow> (Inl exc, st2)
                     | (Inr u2, st2) \<Rightarrow>
                         save_func e res (target_file_of target_dir file_path ext) st2))))"

text \<open>The whole function: the readers, the handler lookup (outside the \<open>try\<close>), the
  body, and the handler of the outer \<open>try\<close> for \<open>FileNotFoundError\<close>, \<open>RuntimeError\<close>
  and \<open>ValueError\<close>. \<open>Inl\<close> is an exception that leaves the function.\<close>

definition process_file :: "env \<Rightarrow> path \<Rightarrow> string \<Rightarrow> path \<Rightarrow> string \<Rightarrow> path \<Rightarrow> bool \<Rightarrow> reader option \<Rightarrow>
    reader option \<Rightarrow> state \<Rightarrow> (exn + unit) \<times> state" where
  "process_file e file_path ext output_root format_key input_base use_gpu ocr_reader_gpu ocr_reader_cpu st =
     (case init_readers e use_gpu ocr_reader_gpu ocr_reader_cpu st of
        ((gpu_handle, cpu_handle), st0) \<Rightarrow>
          (case handlers format_key of
             None \<Rightarrow> (Inl (Exn KeyError (repr format_key)), st0)
           | Some save_func \<Rightarrow>
               (case task_body e file_path ext output_root format_key input_base use_gpu cpu_handle save_func st0 of
                  (Inl exc, st1) \<Rightarrow>
                    if exn_cls exc \<in> {FileNotFoundError, RuntimeError, ValueError}
                    then (Inr (), log e (''Error processing '' @ path_name file_path @ '': '' @ exn_str exc) st1)
                    else (Inl exc, st1)
                | (Inr u, st1) \<Rightarrow> (Inr (), st1))))"

subsection \<open>The worker pool\<close>

text \<open>
  A worker runs the tasks it is given one after another; an exception that leaves a task
  is kept as the result of that task and the worker goes on. The pool is modelled by one
  worker that runs every job in the order of enumeration; iterating over the results in
  the parent raises the first exception among them.
\<close>

fun worker :: "(path \<Rightarrow> state \<Rightarrow> (exn + unit) \<times> state) \<Rightarrow> path list \<Rightarrow> state \<Rightarrow> (exn + unit) list \<times> state" where
  "worker task [] st = ([], st)"
| "worker task (f # files) st =
     (case task f st of (r, st1) \<Rightarrow>
        (case worker task files st1 of (rs, st2) \<Rightarrow> (r # rs, st2)))"

fun first_raised :: "(exn + unit) list \<Rightarrow> exn + unit" where
  "first_raised [] = Inr ()"
| "first_raised (Inl exc # rs) = Inl exc"
| "first_raised (Inr u # rs) = first_raised rs"

definition pool_imap :: "(path \<Rightarrow> state \<Rightarrow> (exn + unit) \<times> state) \<Rightarrow> path list \<Rightarrow> state \<Rightarrow> (exn + unit) \<times> state" where
  "pool_imap task files st =
     (case worker task files (st\<lparr>pool_starts := pool_starts st + 1\<rparr>) of
        (rs, st1) \<Rightarrow> (first_raised rs, st1))"

subsection \<open>\<open>main\<close>\<close>

definition format_map :: "string \<rightharpoonup> string" where
  "format_map = map_of [(''1'', ''html''), (''2'', ''json''), (''3'', ''md''), (''4'', ''txt''), (''5'', ''doctags'')]"

definition supported_exts :: "string list" where
  "supported_exts = [''.pdf'', ''.jpg'', ''.jpeg'', ''.png'', ''.tiff'', ''.bmp'']"

text \<open>Lines 182 and 183: the files of the run.\<close>

definition files_of :: "env \<Rightarrow> state \<Rightarrow> path \<Rightarrow> path list" where
  "files_of e st source_path =
     (if is_file e st source_path then [source_path]
      else filter (\<lambda>f. lower (path_suffix f) \<in> set supported_exts) (rglob e st source_path))"

text \<open>Lines 217 and 218 (and 206 to 208): the output path as \<open>main\<close> computes it.\<close>

definition audit_output_path :: "path \<Rightarrow> string \<Rightarrow> path \<Rightarrow> string \<Rightarrow> path \<Rightarrow> exn + path" where
  "audit_output_path base_output_dir format_key input_base ext f =
     (case relative_to (path_parent f) input_base of
        Inl exc \<Rightarrow> Inl exc
      | Inr rel \<Rightarrow>
          Inr (join_str (joinpath (join_str (join_str base_output_dir format_key) (path_name input_base)) rel)
                 (path_stem f @ ''.'' @ ext)))"

fun success_count_of :: "env \<Rightarrow> state \<Rightarrow> path \<Rightarrow> string \<Rightarrow> path \<Rightarrow> string \<Rightarrow> path list \<Rightarrow> exn + nat" where
  "success_count_of e st base_output_dir format_key input_base ext [] = Inr 0"
| "success_count_of e st base_output_dir format_key input_base ext (f # files) =
     (case audit_output_path base_output_dir format_key input_base ext f of
        Inl exc \<Rightarrow> Inl exc
      | Inr output_path \<Rightarrow>
          (case success_count_of e st base_output_dir format_key input_base ext files of
             Inl exc \<Rightarrow> Inl exc
           | Inr n \<Rightarrow> Inr ((if path_exists e st output_path then 1 else 0) + n)))"

text \<open>Lines 216 to 220: one row for each file, written as the loop goes.\<close>

fun write_rows :: "env \<Rightarrow> path \<Rightarrow> string \<Rightarrow> path \<Rightarrow> string \<Rightarrow> path list \<Rightarrow> state \<Rightarrow> (exn + unit) \<times> state" where
  "write_rows e base_output_dir format_key input_base ext [] st = (Inr (), st)"
| "write_rows e base_output_dir format_key input_base ext (f # files) st =
     (case audit_output_path base_output_dir format_key input_base ext f of
        Inl exc \<Rightarrow> (Inl exc, st)
      | Inr output_path \<Rightarrow>
          (let status = (if path_exists e st output_path then ''Success'' else ''Failed'');
               row = [path_str f, status, now_iso e (ticks st)]
           in write_rows e base_output_dir format_key input_base ext files
                (st\<lparr>csv := map_option (\<lambda>rows. rows @ [row]) (csv st), ticks := ticks st + 1\<rparr>)))"

text \<open>Lines 211 to 220: the summary file is opened for writing, then the header and the
  rows are written.\<close>

definition write_summary :: "env \<Rightarrow> path \<Rightarrow> string \<Rightarrow> path \<Rightarrow> string \<Rightarrow> path list \<Rightarrow> state \<Rightarrow> (exn + unit) \<times> state" where
  "write_summary e base_output_dir format_key input_base ext files st =
     (let csv_path = join_str base_output_dir ''conversion_summary.csv'' in
      case open_w (fs st) (cwd e) csv_path of
        Inl er \<Rightarrow> (Inl (os_error er csv_path), st)
      | Inr t \<Rightarrow>
          write_rows e base_output_dir format_key input_base ext files
            (st\<lparr>fs := t, csv := Some [[''File'', ''Status'', ''Timestamp'']]\<rparr>))"

definition rule_line :: string where
  "rule_line = replicate 48 CHR ''=''"

text \<open>Lines 202 to 226: what \<open>main\<close> does once the pool is closed.\<close>

definition main_report :: "env \<Rightarrow> path \<Rightarrow> string \<Rightarrow> path \<Rightarrow> string \<Rightarrow> path list \<Rightarrow> state \<Rightarrow> (exn + unit) \<times> state" where
  "main_report e base_output_dir format_key input_base ext files st =
     (let st1 = log e ''done!'' (log e rule_line
                 (log e ([CHR 0x0A] @ ''Total document processing time: '' @ elapsed e @ '' seconds'') st))
      in case success_count_of e st1 base_output_dir format_key input_base ext files of
           Inl exc \<Rightarrow> (Inl exc, st1)
         | Inr success_count \<Rightarrow>
             (let failure_count = length files - success_count in
              case write_summary e base_output_dir format_key input_base ext files st1 of
                (Inl exc, st2) \<Rightarrow> (Inl exc, st2)
              | (Inr u, st2) \<Rightarrow>
                  (let st3 = log e (''Total files processed: '' @ str_nat (length files))
                              (log e (''Failed conversions: '' @ str_nat failure_count)
                                (log e (''Successfully converted: '' @ str_nat success_count) st2));
                       st4 = (if length files = 0
                              then log e ''Warning: No supported input files were found.'' st3 else st3)
                   in (Inr (), log e rule_line st4))))"

definition log_menu :: "env \<Rightarrow> state \<Rightarrow> state" where
  "log_menu e st =
     log e ''5. Doctags''
       (log e ''4. Text   (plain text, no Markdown markers)''
         (log e ''3. Markdown''
           (log e ''2. JSON   (lossless serialization of Docling Document)''
             (log e ''1. HTML   (image embedding and referencing supported)''
               (log e ([CHR 0x0A] @ ''Select output format:'') st)))))"

text \<open>\<open>main\<close>, with the three answers typed at the prompts as arguments.\<close>

definition main :: "env \<Rightarrow> string \<Rightarrow> string \<Rightarrow> string \<Rightarrow> state \<Rightarrow> (exn + unit) \<times> state" where
  "main e source_input format_choice gpu_choice st =
     (let st1 = log e ''Welcome to Docling file format converter!'' st;
          source_path = Path (strip source_input)
      in if \<not> path_exists e st1 source_path
         then (Inr (), log e ''File or folder does not exist. Exiting.'' st1)
         else
           (let st2 = log_menu e st1 in
            case format_map (strip format_choice) of
              None \<Rightarrow> (Inr (), log e ''Invalid choice. Exiting.'' st2)
            | Some format_key \<Rightarrow>
                if format_key = '''' then (Inr (), log e ''Invalid choice. Exiting.'' st2)
                else
                  (let use_gpu = (GPU_AVAILABLE e \<and> lower (strip gpu_choice) = ''y'');
                       base_output_dir = join_str (script_dir e) ''output'';
                       ext = format_key;
                       input_base = (if is_dir e st2 source_path then source_path else path_parent source_path);
                       files = files_of e st2 source_path;
                       st3 = log e (rule_line @ [CHR 0x0A])
                              (log e (''Processing... '' @ path_str source_path) (log e rule_line st2))
                   in case pool_imap (\<lambda>f. process_file e f ext base_output_dir format_key input_base use_gpu None None)
                             files st3 of
                        (Inl exc, st4) \<Rightarrow> (Inl exc, st4)
                      | (Inr u, st4) \<Rightarrow> main_report e base_output_dir format_key input_base ext files st4)))"

section \<open>The path mapper of the specification\<close>

text \<open>
  The specification's path mapper, in its words: the directory is output root / format
  key / input base name / parent of the relative source path, and the file name is the stem
  of the relative source path, a dot and the target extension.
\<close>

definition path_mapper :: "path \<Rightarrow> string \<Rightarrow> string \<Rightarrow> path \<Rightarrow> string \<Rightarrow> string \<Rightarrow> path \<times> string" where
  "path_mapper outputRoot formatKey inputBaseName relativeParent stem targetExt =
     (joinpath (join_str (join_str outputRoot formatKey) inputBaseName) relativeParent,
      stem @ ''.'' @ targetExt)"

section \<open>An example run\<close>

text \<open>
  A small file system: the working directory \<open>/work\<close> with an input directory \<open>in\<close>
  that holds two documents, a scanned image and a directory named \<open>scans.pdf\<close>; and the
  directory \<open>/app\<close> of the script. The engines of the example environment succeed on
  every file, and the OCR engine detects three lines.
\<close>

definition example_fs :: node where
  "example_fs =
     Dir [(''work'', Dir [(''in'', Dir [(''a.pdf'', File), (''b.pdf'', File), (''scan.png'', File),
                                      (''scans.pdf'', Dir [(''p1.txt'', File)])])]),
          (''app'', Dir [])]"

definition example_env :: env where
  "example_env =
     \<lparr>GPU_AVAILABLE = True, cwd = [''work''], script_dir = Path ''/app'',
      convert = (\<lambda>s. Inr ''document''), readtext = (\<lambda>r s. Inr 3), export = (\<lambda>enc d. None),
      now_iso = (\<lambda>n. ''2025-01-01T00:00:0'' @ str_nat n), elapsed = ''0.10''\<rparr>"

definition example_state :: state where
  "example_state =
     \<lparr>fs = example_fs, log_lines = [], readers = [], ocr_calls = [], pool_starts = 0,
      csv = None, ticks = 0\<rparr>"

text \<open>The file system after an earlier run has saved \<open>a.pdf\<close> as Markdown.\<close>

definition example_fs_saved :: node where
  "example_fs_saved =
     Dir [(''work'', Dir [(''in'', Dir [(''a.pdf'', File), (''b.pdf'', File)])]),
          (''app'', Dir [(''output'', Dir [(''md'', Dir [(''in'', Dir [(''a.md'', File)])])])])]"


text \<open>The example file system with the output directory left by an earlier run.\<close>

definition example_fs_rerun :: node where
  "example_fs_rerun =
     Dir [(''work'', Dir [(''in'', Dir [(''a.pdf'', File), (''b.pdf'', File), (''scan.png'', File),
                                      (''scans.pdf'', Dir [(''p1.txt'', File)])])]),
          (''app'', Dir [(''output'', Dir [])])]"

section \<open>The output path\<close>

lemma is_relative_to_tail:
  "is_relative_to p other \<Longrightarrow> tail p = tail other @ drop (length (tail other)) (tail p)"
  unfolding is_relative_to_def by (metis append_take_drop_id)

lemma relative_to_Inr:
  "relative_to p other = Inr r \<Longrightarrow>
     anchor p = anchor other \<and> tail p = tail other @ tail r \<and> anchor r = ''''"
  unfolding relative_to_def using is_relative_to_tail[of p other]
  by (auto split: if_splits simp: is_relative_to_def)

lemma relative_to_parent:
  assumes "relative_to p other = Inr r" and "tail r \<noteq> []"
  shows "relative_to (path_parent p) other = Inr (path_parent r)"
proof -
  from relative_to_Inr[OF assms(1)] have a: "anchor p = anchor other"
    and t: "tail p = tail other @ tail r" and r: "anchor r = ''''" by auto
  have "tail p \<noteq> []" using t assms(2) by simp
  then have pp: "tail (path_parent p) = tail other @ butlast (tail r)" "anchor (path_parent p) = anchor other"
    using t a assms(2) by (simp_all add: path_parent_def butlast_append)
  have "path_parent r = \<lparr>anchor = '''', tail = butlast (tail r)\<rparr>"
    using assms(2) r by (simp add: path_parent_def)
  then show ?thesis
    unfolding relative_to_def is_relative_to_def using pp by simp
qed

lemma path_name_relative:
  assumes "relative_to p other = Inr r" and "tail r \<noteq> []"
  shows "path_name p = path_name r"
  using relative_to_Inr[OF assms(1)] assms(2) by (simp add: path_name_def)

lemma path_stem_empty: "path_stem p = '''' \<Longrightarrow> path_name p = ''''"
  unfolding path_stem_def Let_def by (auto split: if_splits)

lemma path_suffix_no_name: "path_name p = '''' \<Longrightarrow> path_suffix p = ''''"
  unfolding path_suffix_def Let_def by (simp add: rfind_def)

lemma path_name_no_tail: "tail p = [] \<Longrightarrow> path_name p = ''''"
  by (simp add: path_name_def)

lemma stem_suffix_tails:
  assumes "path_stem r1 = path_stem r2" and "path_suffix r1 \<noteq> path_suffix r2"
  shows "tail r1 \<noteq> [] \<and> tail r2 \<noteq> []"
proof -
  have "\<not> (path_name r1 = '''' \<or> path_name r2 = '''')"
  proof
    assume "path_name r1 = '''' \<or> path_name r2 = ''''"
    then have "path_stem r1 = '''' \<or> path_stem r2 = ''''"
      by (auto simp: path_stem_def Let_def rfind_def)
    then have "path_name r1 = '''' \<and> path_name r2 = ''''"
      using assms(1) path_stem_empty by metis
    then show False using assms(2) path_suffix_no_name by metis
  qed
  then show ?thesis using path_name_no_tail by blast
qed

text \<open>
  Claim C2. The output path that \<open>process_file\<close> computes for a job (lines 132 to 136:
  the target directory, then the target file in it) and the output path that \<open>main\<close>
  computes again for its summary (lines 217 and 218) are the same, for every output root,
  format key, input base, source file and target extension; and both are what the path
  mapper of the specification gives: output root / format key / name of the input base /
  parent of the source relative to the input base, with the file name stem + "." + target
  extension. Both raise the same \<open>ValueError\<close> when the parent of the source is not under
  the input base.
\<close>

theorem output_path_agreement:
  "(case target_dir_of output_root format_key input_base f of
      Inl exc \<Rightarrow> Inl exc
    | Inr target_dir \<Rightarrow> Inr (target_file_of target_dir f ext))
   = audit_output_path output_root format_key input_base ext f
   \<and> audit_output_path output_root format_key input_base ext f
   = (case relative_to (path_parent f) input_base of
        Inl exc \<Rightarrow> Inl exc
      | Inr rel \<Rightarrow>
          (case path_mapper output_root format_key (path_name input_base) rel (path_stem f) ext of
             (directory, file_name) \<Rightarrow> Inr (join_str directory file_name)))"
  by (simp add: target_dir_of_def target_file_of_def audit_output_path_def path_mapper_def
      split: sum.splits)

theorem output_path_agreement_witness:
  "(case target_dir_of (Path ''/app/output'') ''md'' (Path ''in'') (Path ''in/a/Doc.PDF'') of
      Inl exc \<Rightarrow> Inl exc
    | Inr target_dir \<Rightarrow> Inr (target_file_of target_dir (Path ''in/a/Doc.PDF'') ''md''))
   = audit_output_path (Path ''/app/output'') ''md'' (Path ''in'') ''md'' (Path ''in/a/Doc.PDF'')
   \<and> audit_output_path (Path ''/app/output'') ''md'' (Path ''in'') ''md'' (Path ''in/a/Doc.PDF'')
   = Inr (Path ''/app/output/md/in/a/Doc.md'')"
proof -
  have v: "(case relative_to (path_parent (Path ''in/a/Doc.PDF'')) (Path ''in'') of
        Inl exc \<Rightarrow> Inl exc
      | Inr rel \<Rightarrow>
          (case path_mapper (Path ''/app/output'') ''md'' (path_name (Path ''in'')) rel
                  (path_stem (Path ''in/a/Doc.PDF'')) ''md'' of
             (directory, file_name) \<Rightarrow> Inr (join_str directory file_name)))
     = Inr (Path ''/app/output/md/in/a/Doc.md'')"
    by code_simp
  show ?thesis
    using output_path_agreement[where output_root = "Path ''/app/output''" and format_key = "''md''"
        and input_base = "Path ''in''" and f = "Path ''in/a/Doc.PDF''" and ext = "''md''"]
    unfolding v by simp
qed

text \<open>
  Claim C9. Two source files under the same input base whose paths relative to the input
  base have the same parent and the same stem, and different extensions, are distinct files
  that \<open>process_file\<close> maps to the same target directory and the same target file, for
  every output root, format key and target extension.
\<close>

theorem same_stem_collision:
  assumes "relative_to f1 input_base = Inr r1" and "relative_to f2 input_base = Inr r2"
    and "path_parent r1 = path_parent r2" and "path_stem r1 = path_stem r2"
    and "path_suffix r1 \<noteq> path_suffix r2"
  shows "f1 \<noteq> f2 \<and>
         (\<exists>d. target_dir_of output_root format_key input_base f1 = Inr d
            \<and> target_dir_of output_root format_key input_base f2 = Inr d
            \<and> target_file_of d f1 ext = target_file_of d f2 ext)"
proof -
  from stem_suffix_tails[OF assms(4,5)] have t1: "tail r1 \<noteq> []" and t2: "tail r2 \<noteq> []" by auto
  have p1: "relative_to (path_parent f1) input_base = Inr (path_parent r1)"
    by (rule relative_to_parent[OF assms(1) t1])
  have p2: "relative_to (path_parent f2) input_base = Inr (path_parent r1)"
    using relative_to_parent[OF assms(2) t2] assms(3) by simp
  have n1: "path_name f1 = path_name r1" by (rule path_name_relative[OF assms(1) t1])
  have n2: "path_name f2 = path_name r2" by (rule path_name_relative[OF assms(2) t2])
  have s: "path_stem f1 = path_stem f2"
    using assms(4) n1 n2 by (simp add: path_stem_def)
  have ne: "f1 \<noteq> f2" using assms(1,2,5) by auto
  show ?thesis using p1 p2 s ne
    by (simp add: target_dir_of_def target_file_of_def)
qed

theorem same_stem_collision_witness:
  "Path ''in/a/doc.pdf'' \<noteq> Path ''in/a/doc.png'' \<and>
   (\<exists>d. target_dir_of (Path ''/app/output'') ''md'' (Path ''in'') (Path ''in/a/doc.pdf'') = Inr d
      \<and> target_dir_of (Path ''/app/output'') ''md'' (Path ''in'') (Path ''in/a/doc.png'') = Inr d
      \<and> target_file_of d (Path ''in/a/doc.pdf'') ''md'' = target_file_of d (Path ''in/a/doc.png'') ''md'')"
proof -
  have h1: "relative_to (Path ''in/a/doc.pdf'') (Path ''in'') = Inr (Path ''a/doc.pdf'')" by code_simp
  have h2: "relative_to (Path ''in/a/doc.png'') (Path ''in'') = Inr (Path ''a/doc.png'')" by code_simp
  have h3: "path_parent (Path ''a/doc.pdf'') = path_parent (Path ''a/doc.png'')" by code_simp
  have h4: "path_stem (Path ''a/doc.pdf'') = path_stem (Path ''a/doc.png'')" by code_simp
  have h5: "path_suffix (Path ''a/doc.pdf'') \<noteq> path_suffix (Path ''a/doc.png'')" by code_simp
  show ?thesis by (rule same_stem_collision[OF h1 h2 h3 h4 h5])
qed

section \<open>The handler lookup\<close>

text \<open>
  Claim C10. The lookup \<open>handlers[format_key]\<close> stands before the \<open>try\<close>: for a format key
  outside html, json, md, txt and doctags, \<open>process_file\<close> raises \<open>KeyError\<close> to its caller
  and logs nothing. A format key that \<open>main\<close> takes from \<open>format_map\<close> (and that is not
  empty, as \<open>main\<close> checks) is one of the five keys, so its lookup succeeds.
\<close>

theorem handler_lookup:
  assumes "format_map format_choice = Some valid_key" and "valid_key \<noteq> ''''"
    and "format_key \<notin> {''html'', ''json'', ''md'', ''txt'', ''doctags''}"
  shows "valid_key \<in> {''html'', ''json'', ''md'', ''txt'', ''doctags''}
       \<and> handlers valid_key \<noteq> None
       \<and> handlers format_key = None
       \<and> process_file e file_path ext output_root format_key input_base use_gpu g c st
         = (Inl (Exn KeyError (repr format_key)), snd (init_readers e use_gpu g c st))
       \<and> log_lines (snd (process_file e file_path ext output_root format_key input_base use_gpu g c st))
         = log_lines st"
proof -
  have v: "valid_key \<in> {''html'', ''json'', ''md'', ''txt'', ''doctags''}"
    using assms(1) by (auto simp: format_map_def split: if_splits)
  then have hv: "handlers valid_key \<noteq> None" by (auto simp: handlers_def)
  have hn: "handlers format_key = None" using assms(3) by (simp add: handlers_def)
  then have p: "process_file e file_path ext output_root format_key input_base use_gpu g c st
      = (Inl (Exn KeyError (repr format_key)), snd (init_readers e use_gpu g c st))"
    by (simp add: process_file_def split: prod.splits)
  have "log_lines (snd (init_readers e use_gpu g c st)) = log_lines st"
    by (simp add: init_readers_def new_reader_def Let_def)
  then show ?thesis using v hv hn p by simp
qed

theorem handler_lookup_witness:
  "handlers ''md'' \<noteq> None
   \<and> process_file example_env (Path ''in/a.pdf'') ''md'' (Path ''/app/output'') ''pdf'' (Path ''in'')
       False None None example_state
     = (Inl (Exn KeyError (repr ''pdf'')), example_state)"
proof -
  have h1: "format_map ''3'' = Some ''md''" by (simp add: format_map_def)
  have h2: "''md'' \<noteq> ''''" by simp
  have h3: "''pdf'' \<notin> {''html'', ''json'', ''md'', ''txt'', ''doctags''}" by simp
  have i: "snd (init_readers example_env False None None example_state) = example_state"
    by (simp add: init_readers_def)
  show ?thesis
    using handler_lookup[OF h1 h2 h3, of example_env "Path ''in/a.pdf''" "''md''" "Path ''/app/output''"
        "Path ''in''" False None None example_state]
    unfolding i by simp
qed

section \<open>A missing input path\<close>

text \<open>
  Claim C8. When the input path does not exist at the moment \<open>main\<close> tests it (after the
  welcome line is logged), \<open>main\<close> logs that the file or folder does not exist and returns:
  these two lines are all it logs, no pool is started, no reader is constructed, no OCR call
  is made and no row of a summary is written.
\<close>

theorem missing_input_aborts:
  assumes "\<not> path_exists e (log e ''Welcome to Docling file format converter!'' st) (Path (strip source_input))"
  shows "main e source_input format_choice gpu_choice st
         = (Inr (), log e ''File or folder does not exist. Exiting.''
                      (log e ''Welcome to Docling file format converter!'' st))
       \<and> log_lines (snd (main e source_input format_choice gpu_choice st))
         = log_lines st @ [''Welcome to Docling file format converter!'', ''File or folder does not exist. Exiting.'']
       \<and> pool_starts (snd (main e source_input format_choice gpu_choice st)) = pool_starts st
       \<and> readers (snd (main e source_input format_choice gpu_choice st)) = readers st
       \<and> ocr_calls (snd (main e source_input format_choice gpu_choice st)) = ocr_calls st
       \<and> csv (snd (main e source_input format_choice gpu_choice st)) = csv st
       \<and> ticks (snd (main e source_input format_choice gpu_choice st)) = ticks st"
proof -
  have m: "main e source_input format_choice gpu_choice st
         = (Inr (), log e ''File or folder does not exist. Exiting.''
                      (log e ''Welcome to Docling file format converter!'' st))"
    using assms by (simp add: main_def Let_def)
  show ?thesis unfolding m by (simp add: log_def)
qed

theorem missing_input_aborts_witness:
  "log_lines (snd (main example_env '' missing '' ''3'' ''n'' example_state))
     = [''Welcome to Docling file format converter!'', ''File or folder does not exist. Exiting.'']
   \<and> pool_starts (snd (main example_env '' missing '' ''3'' ''n'' example_state)) = 0
   \<and> csv (snd (main example_env '' missing '' ''3'' ''n'' example_state)) = None"
proof -
  have h: "\<not> path_exists example_env (log example_env ''Welcome to Docling file format converter!'' example_state)
             (Path (strip '' missing ''))"
    by code_simp
  have s: "log_lines example_state = []" "pool_starts example_state = 0" "csv example_state = None"
    by (simp_all add: example_state_def)
  note m = missing_input_aborts[OF h, of "''3''" "''n''"]
  have a: "log_lines (snd (main example_env '' missing '' ''3'' ''n'' example_state))
           = log_lines example_state @ [''Welcome to Docling file format converter!'', ''File or folder does not exist. Exiting.'']"
    using m by blast
  have b: "pool_starts (snd (main example_env '' missing '' ''3'' ''n'' example_state)) = pool_starts example_state"
    using m by blast
  have c: "csv (snd (main example_env '' missing '' ''3'' ''n'' example_state)) = csv example_state"
    using m by blast
  show ?thesis unfolding a b c s by simp
qed

section \<open>The task boundary\<close>


lemma handlers_save_as:
  "handlers format_key = Some save_func \<Longrightarrow> \<exists>encoder label. save_func = save_as encoder label"
  by (auto simp: handlers_def save_html_def save_json_def save_markdown_def save_text_def
      save_doctags_def split: if_splits)





section \<open>The OCR block and the reader handles\<close>

text \<open>
  The OCR block reads the module-level handles \<open>OCR_READER_GPU\<close> and \<open>OCR_READER_CPU\<close>,
  which are \<open>None\<close> throughout, and not the handles that lines 99 and 100 construct. So for
  every file and every handle passed to the task, the block either fails on the attribute
  lookup (when \<open>easyocr\<close> is there) or does nothing (when it is not): no \<open>readtext\<close> call is
  made and nothing is logged.
\<close>

lemma ocr_block_module_handles:
  "ocr_block e file_path ocr_reader_cpu st =
     (if GPU_AVAILABLE e
      then (Inl (Exn AttributeError (repr ''NoneType'' @ '' object has no attribute '' @ repr ''readtext'')), st)
      else (Inr (), st))"
  by (simp add: ocr_block_def gpu_attempt_def call_readtext_def OCR_READER_GPU_def OCR_READER_CPU_def)

text \<open>
  \<open>main\<close> enables OCR only when \<open>easyocr\<close> is there (line 174). In every call it makes,
  the accelerated attempt therefore fails on the attribute lookup, with an exception that is
  neither \<open>RuntimeError\<close> nor \<open>ValueError\<close>: the handler of the OCR block, and with it the
  fallback to the standard reader, is never entered.
\<close>

lemma accelerated_attempt_in_main:
  "GPU_AVAILABLE e \<Longrightarrow>
     gpu_attempt e file_path st
     = (Inl (Exn AttributeError (repr ''NoneType'' @ '' object has no attribute '' @ repr ''readtext'')), st)"
  by (simp add: gpu_attempt_def call_readtext_def OCR_READER_GPU_def)

text \<open>
  Claim C5 (the code departs from it). The job is an image with OCR enabled and \<open>easyocr\<close>
  is there. The accelerated attempt calls \<open>readtext\<close> on the module-level \<open>OCR_READER_GPU\<close>,
  which is \<open>None\<close>: the \<open>AttributeError\<close> is caught neither by the handler of the OCR block
  nor at the task boundary. It leaves \<open>process_file\<close> before the output path is resolved:
  nothing is saved and nothing is logged. In \<open>main\<close>, the same run ends with this exception
  and without a summary.
\<close>

theorem ocr_error_leaves_task:
  "process_file example_env (Path ''in/scan.png'') ''md'' (Path ''/app/output'') ''md'' (Path ''in'')
     True None None example_state
   = (Inl (Exn AttributeError (repr ''NoneType'' @ '' object has no attribute '' @ repr ''readtext'')),
      example_state\<lparr>readers := [Reader True 0, Reader False 1]\<rparr>)
   \<and> (let r = main example_env ''in/scan.png'' ''3'' ''y'' example_state in
        fst r = Inl (Exn AttributeError (repr ''NoneType'' @ '' object has no attribute '' @ repr ''readtext''))
        \<and> csv (snd r) = None
        \<and> stat (fs (snd r)) [''work''] (Path ''/app/output'') = None)"
  by code_simp

text \<open>
  The readers are constructed by every call of \<open>process_file\<close> that has OCR enabled, finds
  \<open>easyocr\<close> and is given no accelerated handle, whatever the file; nothing else in the
  call constructs a reader. A worker that runs \<open>n\<close> such jobs, each called with \<open>None\<close> for
  both handles as \<open>main\<close> calls them, constructs \<open>2 * n\<close> readers.
\<close>

lemma readers_log [simp]: "readers (log e m st) = readers st"
  by (simp add: log_def)

lemma save_as_readers: "readers (snd (save_as encoder label e doc p st)) = readers st"
  by (simp add: save_as_def split: option.splits sum.splits)

lemma mkdir_parents_readers: "readers (snd (mkdir_parents e p st)) = readers st"
  by (simp add: mkdir_parents_def split: prod.splits option.splits)

lemma task_body_readers:
  assumes "handlers format_key = Some save_func"
  shows "readers (snd (task_body e file_path ext output_root format_key input_base use_gpu cpu_handle save_func st))
         = readers st"
proof -
  from handlers_save_as[OF assms] obtain encoder label where sf: "save_func = save_as encoder label"
    by blast
  have m: "\<And>p s u s'. mkdir_parents e p s = (u, s') \<Longrightarrow> readers s' = readers s"
    using mkdir_parents_readers by (metis snd_conv)
  show ?thesis
    unfolding task_body_def sf ocr_block_module_handles
    by (auto split: sum.splits prod.splits simp: save_as_readers dest: m)
qed

lemma process_file_readers:
  "readers (snd (process_file e file_path ext output_root format_key input_base use_gpu g c st))
   = readers st @
     (if use_gpu \<and> GPU_AVAILABLE e \<and> g = None
      then [Reader True (length (readers st)), Reader False (Suc (length (readers st)))] else [])"
proof -
  obtain g' c' st0 where i: "init_readers e use_gpu g c st = ((g', c'), st0)"
    by (metis prod.exhaust)
  have r0: "readers st0 = readers st @
     (if use_gpu \<and> GPU_AVAILABLE e \<and> g = None
      then [Reader True (length (readers st)), Reader False (Suc (length (readers st)))] else [])"
    using i by (auto simp: init_readers_def new_reader_def Let_def split: if_splits)
  show ?thesis
  proof (cases "handlers format_key")
    case None
    then show ?thesis using i r0 by (simp add: process_file_def)
  next
    case (Some save_func)
    from task_body_readers[OF Some, of e file_path ext output_root input_base use_gpu c' st0]
    show ?thesis using i r0 Some
      by (auto simp: process_file_def split: sum.splits prod.splits)
  qed
qed

lemma worker_readers:
  assumes "GPU_AVAILABLE e"
  shows "length (readers (snd (worker (\<lambda>f. process_file e f ext output_root format_key input_base True None None) files st)))
         = length (readers st) + 2 * length files"
proof (induction files arbitrary: st)
  case Nil
  then show ?case by simp
next
  case (Cons f files)
  obtain r st1 where p: "process_file e f ext output_root format_key input_base True None None st = (r, st1)"
    by (metis prod.exhaust)
  have "length (readers st1) = length (readers st) + 2"
    using process_file_readers[of e f ext output_root format_key input_base True None None st] p assms
    by simp
  then show ?case using Cons.IH[of st1] p by (auto split: prod.splits)
qed

text \<open>
  Claim C6 (the code departs from it). One worker runs two jobs with OCR enabled; both are
  PDF documents, so neither needs OCR. Each call of \<open>process_file\<close> gets \<open>None\<close> for both
  handles and constructs a pair of readers of its own: four readers are constructed, and
  none is used.
\<close>

theorem readers_built_for_every_job:
  "fst (worker (\<lambda>f. process_file example_env f ''md'' (Path ''/app/output'') ''md'' (Path ''in'') True None None)
          [Path ''in/a.pdf'', Path ''in/b.pdf''] example_state)
     = [Inr (), Inr ()]
   \<and> readers (snd (worker (\<lambda>f. process_file example_env f ''md'' (Path ''/app/output'') ''md'' (Path ''in'') True None None)
          [Path ''in/a.pdf'', Path ''in/b.pdf''] example_state))
     = [Reader True 0, Reader False 1, Reader True 2, Reader False 3]
   \<and> ocr_calls (snd (worker (\<lambda>f. process_file example_env f ''md'' (Path ''/app/output'') ''md'' (Path ''in'') True None None)
          [Path ''in/a.pdf'', Path ''in/b.pdf''] example_state))
     = []"
  by code_simp

section \<open>The files of a run\<close>

text \<open>
  Claim C7 (the code departs from it). The input directory \<open>in\<close> holds a directory named
  \<open>scans.pdf\<close>. The walk yields directories as well as regular files and only the suffix is
  tested, so the directory \<open>in/scans.pdf\<close> is among the files of the run, though it is not a
  regular file.
\<close>

theorem directory_among_files:
  "files_of example_env example_state (Path ''in'')
     = [Path ''in/a.pdf'', Path ''in/b.pdf'', Path ''in/scan.png'', Path ''in/scans.pdf'']
   \<and> is_dir example_env example_state (Path ''in/scans.pdf'')
   \<and> \<not> is_file example_env example_state (Path ''in/scans.pdf'')"
  by code_simp

section \<open>The summary\<close>

lemma path_exists_fs: "fs st1 = fs st2 \<Longrightarrow> path_exists e st1 p = path_exists e st2 p"
  by (simp add: path_exists_def)

lemma write_rows_csv:
  assumes "write_rows e base fk ib ext files st = (Inr (), st')" and "csv st = Some pre"
  shows "fs st' = fs st \<and>
         (\<exists>rows. csv st' = Some (pre @ rows) \<and> length rows = length files \<and>
            (\<forall>i<length files. \<exists>p. audit_output_path base fk ib ext (files ! i) = Inr p \<and>
               rows ! i = [path_str (files ! i),
                           if path_exists e st p then ''Success'' else ''Failed'',
                           now_iso e (ticks st + i)]))"
  using assms
proof (induction files arbitrary: st pre)
  case Nil
  then show ?case by simp
next
  case (Cons f files)
  from Cons.prems(1) obtain p where p: "audit_output_path base fk ib ext f = Inr p"
    by (auto split: sum.splits)
  define row where "row = [path_str f, if path_exists e st p then ''Success'' else ''Failed'', now_iso e (ticks st)]"
  define st1 where "st1 = st\<lparr>csv := map_option (\<lambda>rows. rows @ [row]) (csv st), ticks := ticks st + 1\<rparr>"
  have run: "write_rows e base fk ib ext files st1 = (Inr (), st')"
    using Cons.prems(1) p by (simp add: st1_def row_def Let_def)
  have c1: "csv st1 = Some (pre @ [row])" using Cons.prems(2) by (simp add: st1_def)
  have f1: "fs st1 = fs st" and t1: "ticks st1 = ticks st + 1" by (simp_all add: st1_def)
  from Cons.IH[OF run c1] obtain rows where
    fs': "fs st' = fs st1" and rows: "csv st' = Some ((pre @ [row]) @ rows)" "length rows = length files"
    and each: "\<forall>i<length files. \<exists>q. audit_output_path base fk ib ext (files ! i) = Inr q \<and>
               rows ! i = [path_str (files ! i),
                           if path_exists e st1 q then ''Success'' else ''Failed'',
                           now_iso e (ticks st1 + i)]"
    by blast
  have ex: "\<And>q. path_exists e st1 q = path_exists e st q" by (rule path_exists_fs[OF f1])
  have "\<forall>i<length (f # files). \<exists>q. audit_output_path base fk ib ext ((f # files) ! i) = Inr q \<and>
               (row # rows) ! i = [path_str ((f # files) ! i),
                           if path_exists e st q then ''Success'' else ''Failed'',
                           now_iso e (ticks st + i)]"
  proof (intro allI impI)
    fix i assume i: "i < length (f # files)"
    show "\<exists>q. audit_output_path base fk ib ext ((f # files) ! i) = Inr q \<and>
               (row # rows) ! i = [path_str ((f # files) ! i),
                           if path_exists e st q then ''Success'' else ''Failed'',
                           now_iso e (ticks st + i)]"
    proof (cases i)
      case 0
      then show ?thesis using p by (simp add: row_def)
    next
      case (Suc j)
      then have "j < length files" using i by simp
      with each obtain q where "audit_output_path base fk ib ext (files ! j) = Inr q"
        "rows ! j = [path_str (files ! j), if path_exists e st1 q then ''Success'' else ''Failed'', now_iso e (ticks st1 + j)]"
        by blast
      then show ?thesis using Suc ex t1 by simp
    qed
  qed
  moreover have "csv st' = Some (pre @ (row # rows))" using rows(1) by simp
  moreover have "length (row # rows) = length (f # files)" using rows(2) by simp
  moreover have "fs st' = fs st" using fs' f1 by simp
  ultimately show ?case by blast
qed

text \<open>
  What the summary holds when lines 211 to 220 have run to their end: the header row File,
  Status, Timestamp and then exactly one row for each file of the run, in order: the path of
  the file, a status and a timestamp. The status is Success or Failed, and it is Success if
  and only if the output path that \<open>main\<close> computes for that file exists in the file system
  as it is during the audit, which is the file system of the final state.
\<close>

lemma summary_rows:
  assumes "write_summary e base_output_dir format_key input_base ext files st = (Inr (), st')"
  shows "\<exists>rows. csv st' = Some ([''File'', ''Status'', ''Timestamp''] # rows) \<and>
           length rows = length files \<and>
           (\<forall>i<length files. \<exists>output_path status.
               audit_output_path base_output_dir format_key input_base ext (files ! i) = Inr output_path \<and>
               rows ! i = [path_str (files ! i), status, now_iso e (ticks st + i)] \<and>
               status \<in> {''Success'', ''Failed''} \<and>
               (status = ''Success'') = path_exists e st' output_path)"
proof -
  define csv_path where "csv_path = join_str base_output_dir ''conversion_summary.csv''"
  from assms obtain t where t: "open_w (fs st) (cwd e) csv_path = Inr t"
    and run: "write_rows e base_output_dir format_key input_base ext files
                (st\<lparr>fs := t, csv := Some [[''File'', ''Status'', ''Timestamp'']]\<rparr>) = (Inr (), st')"
    by (auto simp: write_summary_def csv_path_def Let_def split: sum.splits)
  define st1 where "st1 = st\<lparr>fs := t, csv := Some [[''File'', ''Status'', ''Timestamp'']]\<rparr>"
  have c: "csv st1 = Some [[''File'', ''Status'', ''Timestamp'']]" by (simp add: st1_def)
  from write_rows_csv[OF run[folded st1_def] c] obtain rows where
    f: "fs st' = fs st1" and r: "csv st' = Some ([[''File'', ''Status'', ''Timestamp'']] @ rows)"
      "length rows = length files"
    and each: "\<forall>i<length files. \<exists>p. audit_output_path base_output_dir format_key input_base ext (files ! i) = Inr p \<and>
               rows ! i = [path_str (files ! i),
                           if path_exists e st1 p then ''Success'' else ''Failed'',
                           now_iso e (ticks st1 + i)]"
    by blast
  have ex: "\<And>q. path_exists e st1 q = path_exists e st' q" using path_exists_fs[OF f] by simp
  have tk: "ticks st1 = ticks st" by (simp add: st1_def)
  have "\<forall>i<length files. \<exists>output_path status.
               audit_output_path base_output_dir format_key input_base ext (files ! i) = Inr output_path \<and>
               rows ! i = [path_str (files ! i), status, now_iso e (ticks st + i)] \<and>
               status \<in> {''Success'', ''Failed''} \<and>
               (status = ''Success'') = path_exists e st' output_path"
  proof (intro allI impI)
    fix i assume "i < length files"
    with each obtain p where p: "audit_output_path base_output_dir format_key input_base ext (files ! i) = Inr p"
      "rows ! i = [path_str (files ! i), if path_exists e st1 p then ''Success'' else ''Failed'', now_iso e (ticks st1 + i)]"
      by blast
    show "\<exists>output_path status.
               audit_output_path base_output_dir format_key input_base ext (files ! i) = Inr output_path \<and>
               rows ! i = [path_str (files ! i), status, now_iso e (ticks st + i)] \<and>
               status \<in> {''Success'', ''Failed''} \<and>
               (status = ''Success'') = path_exists e st' output_path"
      using p ex tk
      by (intro exI[of _ p] exI[of _ "if path_exists e st1 p then ''Success'' else ''Failed''"]) simp
  qed
  then show ?thesis using r by auto
qed

lemma summary_rows_example:
  "(\<exists>rows. csv (snd (write_summary example_env (Path ''/app/output'') ''md'' (Path ''in'') ''md''
                        [Path ''in/a.pdf'', Path ''in/b.pdf''] (example_state\<lparr>fs := example_fs_saved\<rparr>)))
            = Some ([''File'', ''Status'', ''Timestamp''] # rows) \<and> length rows = 2)
   \<and> csv (snd (write_summary example_env (Path ''/app/output'') ''md'' (Path ''in'') ''md''
                  [Path ''in/a.pdf'', Path ''in/b.pdf''] (example_state\<lparr>fs := example_fs_saved\<rparr>)))
     = Some [[''File'', ''Status'', ''Timestamp''],
             [''in/a.pdf'', ''Success'', ''2025-01-01T00:00:00''],
             [''in/b.pdf'', ''Failed'', ''2025-01-01T00:00:01'']]"
proof -
  have h: "write_summary example_env (Path ''/app/output'') ''md'' (Path ''in'') ''md''
             [Path ''in/a.pdf'', Path ''in/b.pdf''] (example_state\<lparr>fs := example_fs_saved\<rparr>)
           = (Inr (), snd (write_summary example_env (Path ''/app/output'') ''md'' (Path ''in'') ''md''
                             [Path ''in/a.pdf'', Path ''in/b.pdf''] (example_state\<lparr>fs := example_fs_saved\<rparr>)))"
    by code_simp
  have v: "csv (snd (write_summary example_env (Path ''/app/output'') ''md'' (Path ''in'') ''md''
                  [Path ''in/a.pdf'', Path ''in/b.pdf''] (example_state\<lparr>fs := example_fs_saved\<rparr>)))
     = Some [[''File'', ''Status'', ''Timestamp''],
             [''in/a.pdf'', ''Success'', ''2025-01-01T00:00:00''],
             [''in/b.pdf'', ''Failed'', ''2025-01-01T00:00:01'']]"
    by code_simp
  from summary_rows[OF h] obtain rows where
    "csv (snd (write_summary example_env (Path ''/app/output'') ''md'' (Path ''in'') ''md''
                        [Path ''in/a.pdf'', Path ''in/b.pdf''] (example_state\<lparr>fs := example_fs_saved\<rparr>)))
            = Some ([''File'', ''Status'', ''Timestamp''] # rows)"
    and "length rows = length [Path ''in/a.pdf'', Path ''in/b.pdf'']"
    by blast
  then have "\<exists>rows. csv (snd (write_summary example_env (Path ''/app/output'') ''md'' (Path ''in'') ''md''
                        [Path ''in/a.pdf'', Path ''in/b.pdf''] (example_state\<lparr>fs := example_fs_saved\<rparr>)))
            = Some ([''File'', ''Status'', ''Timestamp''] # rows) \<and> length rows = 2"
    by (intro exI[of _ rows]) simp
  then show ?thesis using v by blast
qed

text \<open>
  The summary is written whenever the output directory exists, the summary path is not a
  directory and every file of the run has its parent under the input base (as the files that
  \<open>main\<close> enumerates have). When no task has created the output directory, opening the
  summary raises instead.
\<close>

lemma resolve_append:
  "resolve t cur (cs @ ds) = (case resolve t cur cs of Inl er \<Rightarrow> Inl er | Inr k \<Rightarrow> resolve t k ds)"
  by (induction cs arbitrary: cur) (auto split: option.splits node.splits)

lemma csv_path_key:
  assumes "fs_key t wd base = Inr k" and "lookup t k = Some (Dir es)"
  shows "fs_key t wd (join_str base ''conversion_summary.csv'') = Inr (k @ [''conversion_summary.csv''])"
proof -
  have p: "Path ''conversion_summary.csv'' = \<lparr>anchor = '''', tail = [''conversion_summary.csv'']\<rparr>"
    by code_simp
  have "fs_key t wd (join_str base ''conversion_summary.csv'')
        = resolve t (if anchor base = '''' then wd else []) (tail base @ [''conversion_summary.csv''])"
    by (simp add: fs_key_def join_str_def joinpath_def p)
  also have "\<dots> = resolve t k [''conversion_summary.csv'']"
    using assms(1) by (simp add: resolve_append fs_key_def)
  also have "\<dots> = Inr (k @ [''conversion_summary.csv''])"
    using assms(2) by simp
  finally show ?thesis .
qed

lemma write_file_in_dir:
  assumes "lookup t k = Some (Dir es)" and "lookup t (k @ [c]) \<in> {None, Some File}"
  shows "\<exists>t'. write_file t (k @ [c]) = Inr t'"
  using assms
proof (induction k arbitrary: t)
  case Nil
  then show ?case by (auto split: option.splits)
next
  case (Cons a k)
  from Cons.prems(1) obtain ds n where t: "t = Dir ds" and n: "map_of ds a = Some n"
    and l: "lookup n k = Some (Dir es)"
    by (cases t) (auto split: option.splits)
  have "lookup n (k @ [c]) \<in> {None, Some File}" using Cons.prems(2) t n by simp
  from Cons.IH[OF l this] obtain n' where "write_file n (k @ [c]) = Inr n'" by blast
  then show ?case using t n by simp
qed

lemma write_rows_returns:
  assumes "\<forall>f\<in>set files. is_relative_to (path_parent f) input_base"
  shows "\<exists>st'. write_rows e base_output_dir format_key input_base ext files st = (Inr (), st')"
  using assms
proof (induction files arbitrary: st)
  case Nil
  then show ?case by simp
next
  case (Cons f files)
  then have "is_relative_to (path_parent f) input_base" by simp
  then obtain p where "audit_output_path base_output_dir format_key input_base ext f = Inr p"
    by (simp add: audit_output_path_def relative_to_def)
  then show ?case using Cons by (simp add: Let_def)
qed

lemma summary_written:
  assumes "is_dir e st base_output_dir"
    and "\<not> is_dir e st (join_str base_output_dir ''conversion_summary.csv'')"
    and "\<forall>f\<in>set files. is_relative_to (path_parent f) input_base"
  shows "\<exists>st'. write_summary e base_output_dir format_key input_base ext files st = (Inr (), st')"
proof -
  from assms(1) obtain k es where k: "fs_key (fs st) (cwd e) base_output_dir = Inr k"
    and d: "lookup (fs st) k = Some (Dir es)"
    by (auto simp: is_dir_def stat_is_dir_def stat_def split: option.splits node.splits sum.splits)
  note ck = csv_path_key[OF k d]
  have "lookup (fs st) (k @ [''conversion_summary.csv'']) \<in> {None, Some File}"
    using assms(2) unfolding is_dir_def stat_is_dir_def stat_def ck
    by (auto split: option.splits node.splits)
  from write_file_in_dir[OF d this] obtain t where
    "open_w (fs st) (cwd e) (join_str base_output_dir ''conversion_summary.csv'') = Inr t"
    unfolding open_w_def ck by auto
  then show ?thesis using write_rows_returns[OF assms(3)]
    by (simp add: write_summary_def Let_def)
qed

text \<open>
  The summary is not written when the output directory does not exist: the summary is opened
  without the directory being made, and \<open>main\<close> ends with the \<open>FileNotFoundError\<close>.
\<close>

lemma summary_needs_output_root:
  assumes "\<not> path_exists e st base_output_dir"
  shows "\<exists>exc. write_summary e base_output_dir format_key input_base ext files st = (Inl exc, st)
               \<and> exn_cls exc \<in> {FileNotFoundError, OSError}"
proof -
  have p: "Path ''conversion_summary.csv'' = \<lparr>anchor = '''', tail = [''conversion_summary.csv'']\<rparr>"
    by code_simp
  have f: "fs_key (fs st) (cwd e) (join_str base_output_dir ''conversion_summary.csv'')
        = (case fs_key (fs st) (cwd e) base_output_dir of
             Inl er \<Rightarrow> Inl er
           | Inr k \<Rightarrow> resolve (fs st) k [''conversion_summary.csv''])"
    by (simp add: fs_key_def join_str_def joinpath_def p resolve_append)
  have "\<exists>er. fs_key (fs st) (cwd e) (join_str base_output_dir ''conversion_summary.csv'') = Inl er"
    using assms unfolding f path_exists_def stat_def
    by (auto split: sum.splits option.splits node.splits)
  then obtain er where "open_w (fs st) (cwd e) (join_str base_output_dir ''conversion_summary.csv'') = Inl er"
    by (auto simp: open_w_def)
  then show ?thesis
    by (cases er) (auto simp: write_summary_def Let_def os_error_def)
qed

text \<open>
  Claim C3 (the code departs from it). \<open>main\<close> opens the summary at line 212 without
  making the output directory, which only a task that reaches line 135 makes. On an output
  root that does not exist yet, a run over a directory without supported files, and a run in
  which the conversion of the only file fails, both end in \<open>main\<close> with
  \<open>FileNotFoundError\<close> after the pool is closed: no summary is written, no file is at
  \<open>/app/output/conversion_summary.csv\<close>, and the lines that follow the summary (the
  counts, the warning for a run without files) are not logged.
\<close>

theorem summary_not_written:
  "(let r = main example_env ''in/scans.pdf'' ''3'' ''n'' example_state in
      fst r = Inl (Exn FileNotFoundError
                     (''[Errno 2] No such file or directory: '' @ repr ''/app/output/conversion_summary.csv''))
      \<and> pool_starts (snd r) = 1
      \<and> csv (snd r) = None
      \<and> stat (fs (snd r)) [''work''] (Path ''/app/output/conversion_summary.csv'') = None
      \<and> last (log_lines (snd r)) = ''done!''
      \<and> ''Warning: No supported input files were found.'' \<notin> set (log_lines (snd r)))
   \<and> files_of example_env example_state (Path ''in/scans.pdf'') = []
   \<and> (let r = main (example_env\<lparr>convert := (\<lambda>s. Inl (Exn RuntimeError ''conversion failed''))\<rparr>)
                 ''in/a.pdf'' ''3'' ''n'' example_state in
      fst r = Inl (Exn FileNotFoundError
                     (''[Errno 2] No such file or directory: '' @ repr ''/app/output/conversion_summary.csv''))
      \<and> csv (snd r) = None
      \<and> stat (fs (snd r)) [''work''] (Path ''/app/output/conversion_summary.csv'') = None
      \<and> ''Error processing a.pdf: conversion failed'' \<in> set (log_lines (snd r))
      \<and> last (log_lines (snd r)) = ''done!'')"
  by code_simp

text \<open>
  With the output directory there (here from an earlier run), the same run over a directory
  without supported files writes the summary, with the header alone, and logs the warning;
  and a run whose job is saved, which makes the output directory, writes the summary with
  the row of the job.
\<close>

lemma summary_written_example:
  "(let r = main example_env ''in/scans.pdf'' ''3'' ''n'' (example_state\<lparr>fs := example_fs_rerun\<rparr>) in
      fst r = Inr ()
      \<and> csv (snd r) = Some [[''File'', ''Status'', ''Timestamp'']]
      \<and> stat (fs (snd r)) [''work''] (Path ''/app/output/conversion_summary.csv'') = Some File
      \<and> ''Warning: No supported input files were found.'' \<in> set (log_lines (snd r)))
   \<and> (let r = main example_env ''in/a.pdf'' ''3'' ''n'' example_state in
      fst r = Inr ()
      \<and> csv (snd r) = Some [[''File'', ''Status'', ''Timestamp''],
                           [''in/a.pdf'', ''Success'', ''2025-01-01T00:00:00'']]
      \<and> stat (fs (snd r)) [''work''] (Path ''/app/output/conversion_summary.csv'') = Some File)"
  by code_simp

end
